theory Spec2Isabelle
  imports Complex_Main
begin

section \<open>Edge service: data model\<close>

text \<open>
  Embedding of \<^verbatim>\<open>services/simulatedData.ts\<close>, \<^verbatim>\<open>services/edgeService.ts\<close> and
  \<^verbatim>\<open>services/agentOrchestrator.ts\<close>, with the type declarations of \<^verbatim>\<open>types.ts\<close>.

  A TypeScript \<^verbatim>\<open>number\<close> that holds a sensor reading is a \<open>real\<close>: the classifier only
  compares readings with constants, and on finite doubles that comparison is the order of
  the reals. The frames of every dataset are finite (no NaN, no infinity). The playback
  cursor only ever holds a natural number and is a \<open>nat\<close>.

  Field names that several interfaces share (\<^verbatim>\<open>timestamp\<close>, \<^verbatim>\<open>machineId\<close>, \<^verbatim>\<open>status\<close>, ...)
  or that clash with a HOL constant (\<^verbatim>\<open>id\<close>, \<^verbatim>\<open>size\<close>) carry a prefix naming their interface.
\<close>

datatype EdgeFaultType = NONE | IT_ATTACK | OT_ATTACK | MECHANICAL_FAIL

datatype DetectedLabel =
  NORMAL | MECHANICAL_WEAR | THERMAL_RUNAWAY | NETWORK_DDOS | CYBER_KINETIC | UNKNOWN

record NetworkLog =
  protocol :: string
  command :: string
  isMalicious :: bool
  log_size :: real
  source :: string

record TelemetryFrame =
  temp :: real
  vib :: real
  audio :: real
  latency :: real
  packetLoss :: real
  cpu :: real
  pressure :: real
  current :: real
  networkLog :: NetworkLog

record GeminiNanoResult =
  anomalyScore :: real
  inferenceTimeMs :: int
  detectedLabel :: DetectedLabel
  specificAlerts :: "string list"

datatype DeviceStatus = ONLINE | OFFLINE

record EdgeHeartbeat =
  hb_machineId :: string
  hb_timestamp :: string
  deviceStatus :: DeviceStatus
  cpuLoad :: real
  memoryUsage :: real
  averageTemp :: real

record SensorDataPoint =
  sdp_timestamp :: string
  sdp_value :: real

record NetworkTrafficPoint =
  ntp_timestamp :: string
  throughput :: real
  ntp_protocol :: string
  ntp_command :: string
  ntp_isMalicious :: bool
  sourceIp :: string

record RawTelemetry =
  temperature :: "SensorDataPoint list"
  vibration :: "SensorDataPoint list"
  audioDecibels :: "SensorDataPoint list"
  networkLatency :: "SensorDataPoint list"
  raw_current :: "SensorDataPoint list"
  raw_pressure :: "SensorDataPoint list"
  raw_packetLoss :: real
  networkTraffic :: "NetworkTrafficPoint list"

record FileAttachments =
  audioClip :: string
  pcapDump :: string
  systemLogs :: string

record EdgeAlert =
  alert_machineId :: string
  alert_timestamp :: string
  nanoAnalysis :: GeminiNanoResult
  rawTelemetry :: RawTelemetry
  fileAttachments :: FileAttachments

text \<open>
  What one call hands to the subscribers, in the order of the calls: a line for the log
  callbacks, a heartbeat for the heartbeat callbacks, an alert for the alert callbacks.
\<close>

datatype Emission = LogLine string | HeartbeatEv EdgeHeartbeat | AlertEv EdgeAlert

text \<open>
  The clock of one call: \<open>date_iso k\<close> and \<open>date_locale k\<close> are what the \<open>k\<close>-th
  \<^verbatim>\<open>new Date()\<close> of the call prints with \<^verbatim>\<open>toISOString()\<close> and \<^verbatim>\<open>toLocaleTimeString()\<close>;
  \<open>elapsed\<close> is \<^verbatim>\<open>performance.now() - startTime\<close> in \<^verbatim>\<open>runGeminiNano\<close>.
\<close>

record Clock =
  date_iso :: "nat \<Rightarrow> string"
  date_locale :: "nat \<Rightarrow> string"
  elapsed :: real

text \<open>
  The state of \<^verbatim>\<open>EdgeService\<close>. \<^verbatim>\<open>currentFrame\<close> is \<open>None\<close> when the array read gave
  \<^verbatim>\<open>undefined\<close> (an index outside the dataset).
\<close>

record EdgeState =
  currentDataset :: "TelemetryFrame list"
  playbackCursor :: nat
  faultMode :: EdgeFaultType
  currentFrame :: "TelemetryFrame option"

text \<open>
  \<^verbatim>\<open>DATASETS\<close> is computed once when the module loads; the service takes it as it is.
\<close>

record Datasets =
  ds_NORMAL :: "TelemetryFrame list"
  ds_IT_ATTACK :: "TelemetryFrame list"
  ds_MECHANICAL_FAIL :: "TelemetryFrame list"
  ds_OT_ATTACK :: "TelemetryFrame list"

datatype js_error = TypeError

section \<open>Edge service: operations\<close>

definition log_line :: "Clock \<Rightarrow> nat \<Rightarrow> string \<Rightarrow> Emission" where
  "log_line clk k msg = LogLine (''['' @ date_locale clk k @ ''] '' @ msg)"

fun mode_name :: "EdgeFaultType \<Rightarrow> string" where
  "mode_name NONE = ''NONE''"
| "mode_name IT_ATTACK = ''IT_ATTACK''"
| "mode_name OT_ATTACK = ''OT_ATTACK''"
| "mode_name MECHANICAL_FAIL = ''MECHANICAL_FAIL''"

fun label_name :: "DetectedLabel \<Rightarrow> string" where
  "label_name NORMAL = ''NORMAL''"
| "label_name MECHANICAL_WEAR = ''MECHANICAL_WEAR''"
| "label_name THERMAL_RUNAWAY = ''THERMAL_RUNAWAY''"
| "label_name NETWORK_DDOS = ''NETWORK_DDOS''"
| "label_name CYBER_KINETIC = ''CYBER_KINETIC''"
| "label_name UNKNOWN = ''UNKNOWN''"

definition setFaultMode ::
  "Datasets \<Rightarrow> Clock \<Rightarrow> EdgeFaultType \<Rightarrow> EdgeState \<Rightarrow> EdgeState \<times> Emission list" where
  "setFaultMode D clk mode s =
     (s\<lparr>faultMode := mode,
        playbackCursor := 0,
        currentDataset :=
          (case mode of
             IT_ATTACK \<Rightarrow> ds_IT_ATTACK D
           | OT_ATTACK \<Rightarrow> ds_OT_ATTACK D
           | MECHANICAL_FAIL \<Rightarrow> ds_MECHANICAL_FAIL D
           | NONE \<Rightarrow> ds_NORMAL D)\<rparr>,
      [log_line clk 0 (''[KERNEL] Mounting Dataset: DATASET_'' @ mode_name mode)])"

text \<open>
  \<^verbatim>\<open>readNextFrame\<close>: read at the cursor, then advance the cursor. The datasets are never
  empty (each generator pushes 60 frames), so the modulus is positive.
\<close>

definition readNextFrame :: "EdgeState \<Rightarrow> EdgeState" where
  "readNextFrame s =
     s\<lparr>currentFrame :=
         (if playbackCursor s < length (currentDataset s)
          then Some (currentDataset s ! playbackCursor s) else None),
       playbackCursor := (playbackCursor s + 1) mod length (currentDataset s)\<rparr>"

text \<open>
  The detection logic of \<^verbatim>\<open>runGeminiNano\<close> (steps 1 and 2 of its body): label, score and
  alert strings from the frame and the fault mode, as a cascade of \<^verbatim>\<open>if / else if\<close>.
\<close>

definition detect :: "EdgeFaultType \<Rightarrow> TelemetryFrame \<Rightarrow> DetectedLabel \<times> real \<times> string list" where
  "detect mode features =
     (if packetLoss features > 5 \<and> temp features < 60 then
        (NETWORK_DDOS, 0.92, [''High Packet Loss Detected'', ''Network Latency Spike''])
      else if isMalicious (networkLog features)
              \<or> (temp features > 75 \<and> latency features > 100) then
        (CYBER_KINETIC, 0.99,
         [''DPI ALERT: Unauthorized Modbus Command'',
          ''PAYLOAD: '' @ command (networkLog features),
          ''Correlated Thermal Anomaly''])
      else if mode = MECHANICAL_FAIL
              \<and> (vib features > 5 \<or> audio features > 70 \<or> pressure features < 180) then
        (MECHANICAL_WEAR, 0.88,
         (if audio features > 75 then [''Audio: Abnormal Noise Detected''] else [])
         @ (if vib features > 5 then [''Vibration: Rise in Amplitude''] else []))
      else (NORMAL, 0.1, []))"

text \<open>The score the detection logic assigns.\<close>

definition detect_score :: "EdgeFaultType \<Rightarrow> TelemetryFrame \<Rightarrow> real" where
  "detect_score mode features = (case detect mode features of (label, score, alerts) \<Rightarrow> score)"

text \<open>\<^verbatim>\<open>Math.round\<close> rounds halves up.\<close>

definition Math_round :: "real \<Rightarrow> int" where
  "Math_round x = \<lfloor>x + 1 / 2\<rfloor>"

definition nano_result :: "Clock \<Rightarrow> EdgeFaultType \<Rightarrow> TelemetryFrame \<Rightarrow> GeminiNanoResult" where
  "nano_result clk mode features =
     (case detect mode features of (label, score, alerts) \<Rightarrow>
        \<lparr>anomalyScore = score,
         inferenceTimeMs = Math_round (elapsed clk) + 12,
         detectedLabel = label,
         specificAlerts = alerts\<rparr>)"

definition sendHeartbeat :: "Clock \<Rightarrow> EdgeState \<Rightarrow> TelemetryFrame \<Rightarrow> Emission list" where
  "sendHeartbeat clk s frame =
     (if playbackCursor s mod 5 \<noteq> 0 then []
      else [HeartbeatEv
              \<lparr>hb_machineId = ''agv-01'',
               hb_timestamp = date_iso clk 0,
               deviceStatus = ONLINE,
               cpuLoad = cpu frame,
               memoryUsage = 420,
               averageTemp = temp frame\<rparr>])"

definition triggerCloudUpload :: "Clock \<Rightarrow> TelemetryFrame \<Rightarrow> GeminiNanoResult \<Rightarrow> Emission list" where
  "triggerCloudUpload clk frame nanoResult =
     (let nl = networkLog frame;
          nids = (if isMalicious nl
                  then [log_line clk 1 (''[NIDS] BLOCKED: '' @ protocol nl @ '' command from '' @ source nl)]
                  else []);
          k = 1 + length nids;
          files = \<lparr>audioClip = ''normal_rec.wav'',
                   pcapDump = ''net_traffic.pcap'',
                   systemLogs = ''syslog.log''\<rparr>;
          point = (\<lambda>v. [\<lparr>sdp_timestamp = ''now'', sdp_value = v\<rparr>])
      in [log_line clk 0 (''[GEMINI NANO] ANOMALY: '' @ label_name (detectedLabel nanoResult))]
         @ nids
         @ [AlertEv
              \<lparr>alert_machineId = ''agv-01'',
               alert_timestamp = date_iso clk k,
               nanoAnalysis = nanoResult,
               rawTelemetry =
                 \<lparr>temperature = point (temp frame),
                  vibration = point (vib frame),
                  audioDecibels = point (audio frame),
                  networkLatency = point (latency frame),
                  raw_current = point (current frame),
                  raw_pressure = point (pressure frame),
                  raw_packetLoss = packetLoss frame,
                  networkTraffic =
                    [\<lparr>ntp_timestamp = ''now'',
                      throughput = log_size nl / 1024,
                      ntp_protocol = protocol nl,
                      ntp_command = command nl,
                      ntp_isMalicious = isMalicious nl,
                      sourceIp = source nl\<rparr>]\<rparr>,
               fileAttachments = files\<rparr>])"

text \<open>
  \<^verbatim>\<open>runGeminiNano\<close>: reading a field of an undefined frame throws; otherwise the upload
  decision on the score.
\<close>

definition runGeminiNano :: "Clock \<Rightarrow> EdgeState \<Rightarrow> js_error + Emission list" where
  "runGeminiNano clk s =
     (case currentFrame s of
        None \<Rightarrow> Inl TypeError
      | Some features \<Rightarrow>
          (let r = nano_result clk (faultMode s) features
           in if anomalyScore r > 0.7
              then Inr (triggerCloudUpload clk features r)
              else Inr (sendHeartbeat clk s features)))"

text \<open>One firing of the interval of \<^verbatim>\<open>startDeviceLoop\<close>.\<close>

definition tick :: "Clock \<Rightarrow> EdgeState \<Rightarrow> EdgeState \<times> (js_error + Emission list)" where
  "tick clk s = (let s' = readNextFrame s in (s', runGeminiNano clk s'))"

text \<open>
  A run of \<open>n\<close> consecutive firings; \<open>clks i\<close> is the clock of firing \<open>i\<close>, and the
  result lists what each firing published, firing \<open>i\<close> first.
\<close>

fun run_ticks :: "(nat \<Rightarrow> Clock) \<Rightarrow> nat \<Rightarrow> nat \<Rightarrow> EdgeState \<Rightarrow> (js_error + Emission list) list" where
  "run_ticks clks i 0 s = []"
| "run_ticks clks i (Suc n) s =
     (case tick (clks i) s of (s', out) \<Rightarrow> out # run_ticks clks (Suc i) n s')"

fun heartbeats_of :: "Emission list \<Rightarrow> EdgeHeartbeat list" where
  "heartbeats_of [] = []"
| "heartbeats_of (HeartbeatEv h # es) = h # heartbeats_of es"
| "heartbeats_of (_ # es) = heartbeats_of es"

fun alerts_of :: "Emission list \<Rightarrow> EdgeAlert list" where
  "alerts_of [] = []"
| "alerts_of (AlertEv a # es) = a # alerts_of es"
| "alerts_of (_ # es) = alerts_of es"

fun publishes_heartbeat :: "js_error + Emission list \<Rightarrow> bool" where
  "publishes_heartbeat (Inl _) = False"
| "publishes_heartbeat (Inr out) = (heartbeats_of out \<noteq> [])"

fun indices_where :: "nat \<Rightarrow> bool list \<Rightarrow> nat list" where
  "indices_where i [] = []"
| "indices_where i (b # bs) = (if b then i # indices_where (Suc i) bs else indices_where (Suc i) bs)"

text \<open>The 0-based indices of the firings of a run that published a heartbeat.\<close>

definition heartbeat_ticks :: "(js_error + Emission list) list \<Rightarrow> nat list" where
  "heartbeat_ticks outs = indices_where 0 (map publishes_heartbeat outs)"

text \<open>The service as its constructor leaves it.\<close>

definition initial_state :: "Datasets \<Rightarrow> EdgeState" where
  "initial_state D =
     \<lparr>currentDataset = ds_NORMAL D,
      playbackCursor = 0,
      faultMode = NONE,
      currentFrame = (case ds_NORMAL D of [] \<Rightarrow> None | f # _ \<Rightarrow> Some f)\<rparr>"

section \<open>Dataset generation\<close>

text \<open>
  \<^verbatim>\<open>generateNormal\<close> of \<^verbatim>\<open>simulatedData.ts\<close>. \<^verbatim>\<open>Math.random()\<close> is the host's
  generator: \<open>rnd k\<close> is what its \<open>k\<close>-th call of this module load returns, a number in
  \<open>[0, 1)\<close>. An iteration of the loop draws seven times, in the order the object literal
  is evaluated (command, audio, latency, cpu, pressure, current, size), so iteration \<open>i\<close>
  starts at draw \<open>7 * i\<close>.
\<close>

record Command =
  proto :: string
  cmd :: string
  cmd_size :: real

definition commands :: "Command list" where
  "commands =
     [\<lparr>proto = ''Modbus TCP'', cmd = ''Read Holding Reg (0x03)'', cmd_size = 64\<rparr>,
      \<lparr>proto = ''Modbus TCP'', cmd = ''Read Input Reg (0x04)'', cmd_size = 64\<rparr>,
      \<lparr>proto = ''EtherNet/IP'', cmd = ''CIP Read Data'', cmd_size = 128\<rparr>,
      \<lparr>proto = ''S7Comm'', cmd = ''Read Var'', cmd_size = 96\<rparr>]"

definition normal_frame :: "(nat \<Rightarrow> real) \<Rightarrow> nat \<Rightarrow> TelemetryFrame" where
  "normal_frame rnd i =
     (let k = 7 * i;
          randomCmd = commands ! nat \<lfloor>rnd k * real (length commands)\<rfloor>
      in \<lparr>temp = 45 + sin (real i * 0.1) * 2,
          vib = 2.5 + cos (real i * 0.5) * 0.2,
          audio = 60 + rnd (k + 1),
          latency = 10 + rnd (k + 2) * 5,
          packetLoss = 0,
          cpu = 15 + rnd (k + 3) * 2,
          pressure = 200 + rnd (k + 4) * 2,
          current = 12 + rnd (k + 5) * 0.5,
          networkLog =
            \<lparr>protocol = proto randomCmd,
             command = cmd randomCmd,
             isMalicious = False,
             log_size = cmd_size randomCmd + rnd (k + 6) * 10,
             source = ''192.168.1.50''\<rparr>\<rparr>)"

definition generateNormal :: "(nat \<Rightarrow> real) \<Rightarrow> TelemetryFrame list" where
  "generateNormal rnd = map (normal_frame rnd) [0..<60]"

text \<open>
  The frame the reader hands out first after a load of the module whose generator
  returned \<open>rnd\<close>: the service starts on \<^verbatim>\<open>DATASETS.NORMAL\<close> at cursor 0.
\<close>

definition first_frame_of_load :: "(nat \<Rightarrow> real) \<Rightarrow> TelemetryFrame option" where
  "first_frame_of_load rnd =
     currentFrame
       (readNextFrame
          \<lparr>currentDataset = generateNormal rnd, playbackCursor = 0, faultMode = NONE,
           currentFrame = Some (generateNormal rnd ! 0)\<rparr>)"

text \<open>Two loads: one whose generator returns 0 every time, one that returns 1/2.\<close>

definition draws_zero :: "nat \<Rightarrow> real" where
  "draws_zero = (\<lambda>_. 0)"

definition draws_half :: "nat \<Rightarrow> real" where
  "draws_half = (\<lambda>_. 1 / 2)"

section \<open>Agent orchestrator: data model\<close>

datatype AgentRole = AIO | AIS | AIP | ATA | AID

datatype TraceStatus = SUCCESS | FAILURE | PENDING_HIL

record AgentTrace =
  stepId :: string
  agent :: AgentRole
  action :: string
  trace_input :: string
  trace_output :: string
  latencyMs :: real
  tokenUsage :: "nat option"
  trace_status :: TraceStatus

datatype TaskType = FORECASTING | ANOMALY_DETECTION | CLASSIFICATION | PATTERN_RECOG

datatype TestStatus = PASSED | FAILED | WARNING

record ModelTestResult =
  algorithmName :: string
  taskType :: TaskType
  accuracy :: real
  precision :: real
  recall :: real
  aucRoc :: real
  inferenceSpeedMs :: real
  trainingTimeSec :: real
  memoryUsageMB :: real
  cpuUsagePercent :: real
  test_status :: TestStatus

text \<open>An optional field is an \<open>option\<close>: \<open>None\<close> where the object has no such key.\<close>

record Metadata =
  researchUrls :: "string list option"
  notebookUrl :: "string option"
  testMetrics :: "ModelTestResult option"
  deploymentVersion :: "string option"
  traceId :: "string option"

record AgentMessage =
  msg_id :: string
  role :: AgentRole
  content :: string
  msg_timestamp :: string
  requiresHIL :: bool
  approved :: "bool option"
  metadata :: "Metadata option"

text \<open>
  The status type of \<^verbatim>\<open>ResearchSession\<close> declares \<^verbatim>\<open>TESTING\<close> too; no statement of the
  orchestrator assigns it.
\<close>

datatype SessionStatus = RESEARCHING | PLANNING | TESTING | VALIDATING | DEPLOYED

datatype DataSource = AUDIO | SENSOR | NETWORK

record TestContext =
  machineIds :: "string list"
  dataSources :: "DataSource list"
  historyDays :: real

record ResearchSession =
  sess_id :: string
  objective :: string
  status :: SessionStatus
  messages :: "AgentMessage list"
  currentNotebook :: "string option"
  testContext :: "TestContext option"
  contextUsageTokenEstimate :: nat
  longTermMemoryHits :: "string list"

text \<open>
  The orchestrator service: its session and the traces of its observability service
  (the memory service holds no state).
\<close>

record Orchestrator =
  session :: ResearchSession
  traces :: "AgentTrace list"

text \<open>
  What the host answers during one call of the service: \<open>uuid k\<close> is the \<open>k\<close>-th
  \<^verbatim>\<open>crypto.randomUUID()\<close> of the call, \<open>iso_time k\<close> its \<open>k\<close>-th
  \<^verbatim>\<open>new Date().toISOString()\<close>, \<open>perf k\<close> its \<open>k\<close>-th \<^verbatim>\<open>performance.now()\<close>, and
  \<open>date_now\<close> the decimal digits of \<^verbatim>\<open>Date.now()\<close>.
\<close>

record Host =
  uuid :: "nat \<Rightarrow> string"
  iso_time :: "nat \<Rightarrow> string"
  perf :: "nat \<Rightarrow> real"
  date_now :: string

section \<open>Agent orchestrator: strings and arrays\<close>

definition newline :: string where
  "newline = [CHR 0x0A]"

definition dquote :: string where
  "dquote = [CHR 0x22]"

text \<open>Decimal digits of a natural number, as string interpolation prints it.\<close>

fun show_nat :: "nat \<Rightarrow> string" where
  "show_nat n =
     (if n < 10 then [char_of (48 + n)]
      else show_nat (n div 10) @ [char_of (48 + n mod 10)])"

text \<open>
  \<^verbatim>\<open>String.prototype.toLowerCase\<close> and \<^verbatim>\<open>includes\<close> on ASCII text: strings are lists of
  8-bit characters here, and only the letters A to Z change.
\<close>

definition toLowerCase :: "string \<Rightarrow> string" where
  "toLowerCase s =
     map (\<lambda>c. let n = (of_char c :: nat) in if 65 \<le> n \<and> n \<le> 90 then char_of (n + 32) else c) s"

fun str_includes :: "string \<Rightarrow> string \<Rightarrow> bool" where
  "str_includes [] sub = (sub = [])"
| "str_includes (c # cs) sub = (take (length sub) (c # cs) = sub \<or> str_includes cs sub)"

text \<open>
  \<^verbatim>\<open>Array.prototype.find\<close> followed by an assignment to a field of the object found:
  the first element that satisfies the test is changed in place, the others are not.
\<close>

fun update_first :: "('a \<Rightarrow> bool) \<Rightarrow> ('a \<Rightarrow> 'a) \<Rightarrow> 'a list \<Rightarrow> 'a list" where
  "update_first P f [] = []"
| "update_first P f (x # xs) = (if P x then f x # xs else x # update_first P f xs)"

text \<open>
  \<^verbatim>\<open>Array.prototype.slice(start)\<close>: a negative start counts from the end, and the start
  is clamped to the array.
\<close>

definition slice_from :: "int \<Rightarrow> 'a list \<Rightarrow> 'a list" where
  "slice_from start xs =
     (let n = int (length xs);
          k = (if start < 0 then max (n + start) 0 else min start n)
      in drop (nat k) xs)"

section \<open>Agent orchestrator: observability and memory services\<close>

definition startTrace :: "string \<Rightarrow> AgentRole \<Rightarrow> string \<Rightarrow> string \<Rightarrow> AgentTrace list \<Rightarrow> AgentTrace list" where
  "startTrace new_id ag act inp ts =
     ts @ [\<lparr>stepId = new_id, agent = ag, action = act, trace_input = inp, trace_output = '''',
            latencyMs = 0, tokenUsage = Some 0, trace_status = PENDING_HIL\<rparr>]"

definition endTrace :: "string \<Rightarrow> string \<Rightarrow> TraceStatus \<Rightarrow> real \<Rightarrow> AgentTrace list \<Rightarrow> AgentTrace list" where
  "endTrace tid out st lat ts =
     update_first (\<lambda>t. stepId t = tid)
       (\<lambda>t. t\<lparr>trace_output := out, trace_status := st, latencyMs := lat,
               tokenUsage := Some ((length out + 3) div 4)\<rparr>)
       ts"

record KnowledgeEntry =
  kb_id :: string
  topic :: string
  kb_data :: string

definition knowledgeBase :: "KnowledgeEntry list" where
  "knowledgeBase =
     [\<lparr>kb_id = ''kb-001'', topic = ''Bearing Faults'',
       kb_data = ''Spectrogram analysis works best for rolling element bearings.''\<rparr>,
      \<lparr>kb_id = ''kb-002'', topic = ''Network DDoS'',
       kb_data = ''High packet loss + SYN flood signature requires immediate port blocking.''\<rparr>]"

definition retrieveContext :: "string \<Rightarrow> string list" where
  "retrieveContext query =
     map (\<lambda>k. ''[LTM Hit]: '' @ kb_data k)
       (filter (\<lambda>k. str_includes (toLowerCase query) (toLowerCase (topic k)) \<or> str_includes query ''fault'')
          knowledgeBase)"

definition pruneContext :: "AgentMessage list \<Rightarrow> AgentMessage list" where
  "pruneContext msgs =
     (if length msgs > 20 then (msgs ! 0) # slice_from (- 10) msgs else msgs)"

section \<open>Agent orchestrator: workflow\<close>

definition resetSession :: "Host \<Rightarrow> ResearchSession" where
  "resetSession h =
     \<lparr>sess_id = ''sess-'' @ date_now h,
      objective = '''',
      status = RESEARCHING,
      messages = [],
      currentNotebook = None,
      testContext = None,
      contextUsageTokenEstimate = 0,
      longTermMemoryHits = []\<rparr>"

text \<open>The service as its constructor leaves it.\<close>

definition new_orchestrator :: "Host \<Rightarrow> Orchestrator" where
  "new_orchestrator h = \<lparr>session = resetSession h, traces = []\<rparr>"

definition no_metadata :: Metadata where
  "no_metadata =
     \<lparr>researchUrls = None, notebookUrl = None, testMetrics = None,
      deploymentVersion = None, traceId = None\<rparr>"

definition startSession :: "Host \<Rightarrow> string \<Rightarrow> Orchestrator \<Rightarrow> Orchestrator \<times> AgentMessage" where
  "startSession h obj orch =
     (let memories = retrieveContext obj;
          tid = uuid h 0;
          ts1 = startTrace tid AIO ''Initialize Session'' obj (traces orch);
          initialMsg =
            \<lparr>msg_id = uuid h 1,
             role = AIO,
             content =
               ''Objective Received: '' @ dquote @ obj @ dquote @ ''.'' @ newline @ newline
               @ ''[Memory Recall]: Found '' @ show_nat (length memories)
               @ '' relevant past insights.'' @ newline @ newline
               @ ''I will instruct the Search Agent (AIS) to find SOTA algorithms.'',
             msg_timestamp = iso_time h 0,
             requiresHIL = True,
             approved = None,
             metadata = Some (no_metadata\<lparr>traceId := Some tid\<rparr>)\<rparr>;
          sess = (resetSession h)
                   \<lparr>objective := obj, longTermMemoryHits := memories, messages := [initialMsg]\<rparr>
      in (\<lparr>session = sess, traces = endTrace tid (content initialMsg) SUCCESS 120 ts1\<rparr>,
          initialMsg))"

definition runAISearch :: "string \<Rightarrow> string \<Rightarrow> string \<Rightarrow> AgentMessage" where
  "runAISearch new_id now query =
     \<lparr>msg_id = new_id,
      role = AIS,
      content =
        ''I have scanned arXiv, GitHub, and Google Research.'' @ newline @ newline
        @ ''Top Candidates:'' @ newline
        @ ''1. TimesFM (Google) - Zero-shot forecasting.'' @ newline
        @ ''2. PatchTST - Transformer based segmentation.'' @ newline @ newline
        @ ''Recommendation: PatchTST for Vibration/Audio multi-modal analysis.'',
      msg_timestamp = now,
      requiresHIL = False,
      approved = None,
      metadata =
        Some (no_metadata\<lparr>researchUrls :=
                Some [''https://arxiv.org/abs/2211.14730'',
                      ''https://github.com/google-research/timesfm'']\<rparr>)\<rparr>"

definition test_bench_metrics :: ModelTestResult where
  "test_bench_metrics =
     \<lparr>algorithmName = ''PatchTST-Industrial-v1'',
      taskType = ANOMALY_DETECTION,
      accuracy = 0.985,
      precision = 0.96,
      recall = 0.99,
      aucRoc = 0.992,
      inferenceSpeedMs = 14.2,
      trainingTimeSec = 450,
      memoryUsageMB = 240,
      cpuUsagePercent = 12,
      test_status = PASSED\<rparr>"

definition runATATest :: "string \<Rightarrow> string \<Rightarrow> AgentMessage" where
  "runATATest new_id now =
     \<lparr>msg_id = new_id,
      role = ATA,
      content =
        ''Test Bench Execution Complete.'' @ newline @ newline
        @ ''- Data Source: AGV-01 (30 Days History)'' @ newline
        @ ''- Injected Faults: Mechanical Failure (Dataset #3)'' @ newline
        @ ''- Outcome: Successfully detected failure at T-minus 48 hours.'' @ newline @ newline
        @ ''See attached metrics card.'',
      msg_timestamp = now,
      requiresHIL = False,
      approved = None,
      metadata = Some (no_metadata\<lparr>testMetrics := Some test_bench_metrics\<rparr>)\<rparr>"

definition rejectionMsg :: "string \<Rightarrow> string \<Rightarrow> AgentMessage" where
  "rejectionMsg new_id now =
     \<lparr>msg_id = new_id,
      role = AIO,
      content = ''Operation cancelled by Supervisor. Waiting for refined instructions...'',
      msg_timestamp = now,
      requiresHIL = False,
      approved = None,
      metadata = None\<rparr>"

definition planMsg :: "string \<Rightarrow> string \<Rightarrow> AgentMessage" where
  "planMsg new_id now =
     \<lparr>msg_id = new_id,
      role = AIO,
      content =
        ''Findings analyzed. I propose testing the '' @ dquote @ ''Time-Series Transformer''
        @ dquote @ '' approach. '' @ newline @ newline
        @ ''Next Step: Instruct Test Agent (ATA) to build a test bench using 30 days of historical sensor data from AGV-01.'',
      msg_timestamp = now,
      requiresHIL = True,
      approved = None,
      metadata = None\<rparr>"

definition validMsg :: "string \<Rightarrow> string \<Rightarrow> AgentMessage \<Rightarrow> AgentMessage" where
  "validMsg new_id now testRes =
     \<lparr>msg_id = new_id,
      role = AIO,
      content =
        ''Test Results Verified. '' @ newline
        @ ''Accuracy (98.5%) exceeds baseline (94%). '' @ newline
        @ ''Inference Speed (15ms) is within edge limits.'' @ newline @ newline
        @ ''Requesting permission to Deploy to Production (Update Edge Config).'',
      msg_timestamp = now,
      requiresHIL = True,
      approved = None,
      metadata =
        Some (no_metadata\<lparr>testMetrics :=
                (case metadata testRes of None \<Rightarrow> None | Some md \<Rightarrow> testMetrics md)\<rparr>)\<rparr>"

definition deployMsg :: "string \<Rightarrow> string \<Rightarrow> AgentMessage" where
  "deployMsg new_id now =
     \<lparr>msg_id = new_id,
      role = AID,
      content =
        ''Deploying Algorithm v2.1.0 to Edge Nodes...'' @ newline @ newline
        @ ''- Updated Inference Engine (TFLite)'' @ newline
        @ ''- Updated Threshold Config'' @ newline
        @ ''- Restarted Monitoring Services'' @ newline @ newline
        @ ''Deployment Successful.'',
      msg_timestamp = now,
      requiresHIL = False,
      approved = None,
      metadata = Some (no_metadata\<lparr>deploymentVersion := Some ''v2.1.0''\<rparr>)\<rparr>"

text \<open>
  The routing of \<^verbatim>\<open>processApproval\<close> after an approval: the new messages, the new status
  and the new traces, by the status of the session.
\<close>

definition route :: "Host \<Rightarrow> ResearchSession \<Rightarrow> AgentTrace list
    \<Rightarrow> AgentMessage list \<times> SessionStatus \<times> AgentTrace list" where
  "route h sess ts =
     (if status sess = RESEARCHING then
        (let tid = uuid h 0;
             ts1 = startTrace tid AIS ''Tool Usage: Google Search'' (objective sess) ts;
             startTime = perf h 0;
             searchRes = runAISearch (uuid h 1) (iso_time h 0) (objective sess);
             ts2 = endTrace tid ''Found Top 2 Candidates'' SUCCESS (perf h 1 - startTime) ts1
         in ([searchRes, planMsg (uuid h 2) (iso_time h 1)], PLANNING, ts2))
      else if status sess = PLANNING then
        (let tid = uuid h 0;
             ts1 = startTrace tid ATA ''Tool Usage: Python REPL'' ''Run Test Bench'' ts;
             startTime = perf h 0;
             testRes = runATATest (uuid h 1) (iso_time h 0);
             ts2 = endTrace tid ''Accuracy 98.5%'' SUCCESS (perf h 1 - startTime) ts1
         in ([testRes, validMsg (uuid h 2) (iso_time h 1) testRes], VALIDATING, ts2))
      else if status sess = VALIDATING then
        (let tid = uuid h 0;
             ts1 = startTrace tid AID ''Tool Usage: Edge Compiler'' ''Deploy TFLite'' ts;
             startTime = perf h 0;
             ts2 = endTrace tid ''Deployment OK'' SUCCESS (perf h 1 - startTime) ts1
         in ([deployMsg (uuid h 1) (iso_time h 0)], DEPLOYED, ts2))
      else ([], status sess, ts))"

definition processApproval ::
  "Host \<Rightarrow> string \<Rightarrow> bool \<Rightarrow> Orchestrator \<Rightarrow> Orchestrator \<times> AgentMessage list" where
  "processApproval h messageId appr orch =
     (case find (\<lambda>m. msg_id m = messageId) (messages (session orch)) of
        None \<Rightarrow> (orch, [])
      | Some targetMsg \<Rightarrow>
          (let sess1 = (session orch)
                 \<lparr>messages := update_first (\<lambda>m. msg_id m = messageId)
                                (\<lambda>m. m\<lparr>approved := Some appr\<rparr>) (messages (session orch))\<rparr>
           in if \<not> appr then
                (let tid = uuid h 0;
                     ts1 = startTrace tid AIO ''Handle Rejection'' ''User rejected proposal''
                             (traces orch);
                     rej = rejectionMsg (uuid h 1) (iso_time h 0)
                 in (\<lparr>session = sess1, traces = endTrace tid ''Cancelled'' FAILURE 50 ts1\<rparr>,
                     [rej]))
              else
                (case route h sess1 (traces orch) of
                   (newMessages, st, ts2) \<Rightarrow>
                     (\<lparr>session = sess1\<lparr>status := st,
                                        messages := pruneContext (messages sess1 @ newMessages)\<rparr>,
                       traces = ts2\<rparr>,
                      newMessages))))"

text \<open>A message id is present when \<^verbatim>\<open>find\<close> succeeds on it.\<close>

definition present :: "string \<Rightarrow> Orchestrator \<Rightarrow> bool" where
  "present messageId orch = (find (\<lambda>m. msg_id m = messageId) (messages (session orch)) \<noteq> None)"

section \<open>Concrete inputs\<close>

definition still_clock :: Clock where
  "still_clock =
     \<lparr>date_iso = (\<lambda>_. ''2025-01-01T00:00:00.000Z''),
      date_locale = (\<lambda>_. ''00:00:00''),
      elapsed = 0\<rparr>"

definition still_clocks :: "nat \<Rightarrow> Clock" where
  "still_clocks = (\<lambda>_. still_clock)"

definition plc_read :: NetworkLog where
  "plc_read =
     \<lparr>protocol = ''Modbus TCP'', command = ''Read Holding Reg (0x03)'',
      isMalicious = False, log_size = 64, source = ''192.168.1.50''\<rparr>"

text \<open>A quiet frame: every rule of the classifier fails on it.\<close>

definition quiet_frame :: TelemetryFrame where
  "quiet_frame =
     \<lparr>temp = 45, vib = 2.5, audio = 60, latency = 12, packetLoss = 0, cpu = 15,
      pressure = 200, current = 12, networkLog = plc_read\<rparr>"

text \<open>The same machine a little warmer, to tell two positions of a dataset apart.\<close>

definition warm_frame :: TelemetryFrame where
  "warm_frame = quiet_frame\<lparr>temp := 46\<rparr>"

text \<open>Packet loss 6 at 50 degrees, with a malicious command on the wire and high latency.\<close>

definition lossy_malicious_frame :: TelemetryFrame where
  "lossy_malicious_frame =
     quiet_frame\<lparr>temp := 50, packetLoss := 6, latency := 200,
       networkLog := plc_read\<lparr>command := ''Write Single Reg (0x06) - SET_RPM=9999'',
                                    isMalicious := True\<rparr>\<rparr>"

text \<open>Vibration 10, everything else quiet.\<close>

definition shaking_frame :: TelemetryFrame where
  "shaking_frame = quiet_frame\<lparr>vib := 10\<rparr>"

definition quiet_state :: EdgeState where
  "quiet_state =
     \<lparr>currentDataset = replicate 60 quiet_frame, playbackCursor = 0, faultMode = NONE,
      currentFrame = Some quiet_frame\<rparr>"

definition two_frame_state :: EdgeState where
  "two_frame_state =
     \<lparr>currentDataset = [quiet_frame, warm_frame], playbackCursor = 0, faultMode = NONE,
      currentFrame = Some quiet_frame\<rparr>"

definition alarm_state :: EdgeState where
  "alarm_state =
     \<lparr>currentDataset = replicate 60 lossy_malicious_frame, playbackCursor = 0,
      faultMode = IT_ATTACK, currentFrame = None\<rparr>"

text \<open>
  A host whose \<open>k\<close>-th UUID is the given prefix followed by \<open>-k\<close>, with a clock that
  stands still.
\<close>

definition host_named :: "string \<Rightarrow> Host" where
  "host_named p =
     \<lparr>uuid = (\<lambda>k. p @ ''-'' @ show_nat k),
      iso_time = (\<lambda>_. ''2025-01-01T00:00:00.000Z''),
      perf = (\<lambda>k. real k),
      date_now = ''1735689600000''\<rparr>"

text \<open>
  A session from its start through three approvals, each of the message that asks for it:
  the opening message \<open>start-1\<close>, the plan \<open>a-2\<close>, the validation request \<open>b-2\<close>.
\<close>

definition orch0 :: Orchestrator where
  "orch0 = new_orchestrator (host_named ''boot'')"

definition orch1 :: Orchestrator where
  "orch1 = fst (startSession (host_named ''start'') ''Detect bearing fault'' orch0)"

definition orch2 :: Orchestrator where
  "orch2 = fst (processApproval (host_named ''a'') ''start-1'' True orch1)"

definition orch3 :: Orchestrator where
  "orch3 = fst (processApproval (host_named ''b'') ''a-2'' True orch2)"

definition orch4 :: Orchestrator where
  "orch4 = fst (processApproval (host_named ''c'') ''b-2'' True orch3)"

text \<open>
  From \<open>orch2\<close>, where the opening message \<open>start-1\<close> is already approved: the same
  message approved again, then the search agent's message \<open>a-1\<close> (which asks for no
  approval) approved.
\<close>

definition again1 :: Orchestrator where
  "again1 = fst (processApproval (host_named ''r'') ''start-1'' True orch2)"

definition again2 :: Orchestrator where
  "again2 = fst (processApproval (host_named ''s'') ''a-1'' True again1)"

text \<open>Twenty-five messages, told apart by their ids.\<close>

definition numbered_msg :: "nat \<Rightarrow> AgentMessage" where
  "numbered_msg i = rejectionMsg (show_nat i) ''2025-01-01T00:00:00.000Z''"

definition twenty_five :: "AgentMessage list" where
  "twenty_five = map numbered_msg [0..<25]"

section \<open>Edge service: auxiliary facts\<close>

lemma anomalyScore_nano_result: "anomalyScore (nano_result clk mode f) = detect_score mode f"
  by (simp add: nano_result_def detect_score_def split: prod.splits)

lemma heartbeats_of_triggerCloudUpload: "heartbeats_of (triggerCloudUpload clk f r) = []"
  by (simp add: triggerCloudUpload_def log_line_def Let_def)

lemma alerts_of_triggerCloudUpload:
  "\<exists>a. alerts_of (triggerCloudUpload clk f r) = [a] \<and> nanoAnalysis a = r"
  by (simp add: triggerCloudUpload_def log_line_def Let_def)

lemma alerts_of_sendHeartbeat: "alerts_of (sendHeartbeat clk s f) = []"
  by (simp add: sendHeartbeat_def)

lemma heartbeats_of_sendHeartbeat:
  "length (heartbeats_of (sendHeartbeat clk s f)) = (if playbackCursor s mod 5 = 0 then 1 else 0)"
  by (simp add: sendHeartbeat_def)

lemma tick_in_range:
  assumes "playbackCursor s < length (currentDataset s)"
  shows "tick clk s =
     (let f = currentDataset s ! playbackCursor s;
          s' = s\<lparr>currentFrame := Some f,
                 playbackCursor := (playbackCursor s + 1) mod length (currentDataset s)\<rparr>
      in (s', Inr (if detect_score (faultMode s) f > 0.7
                   then triggerCloudUpload clk f (nano_result clk (faultMode s) f)
                   else sendHeartbeat clk s' f)))"
  using assms
  by (simp add: tick_def readNextFrame_def runGeminiNano_def Let_def anomalyScore_nano_result)

lemma publishes_heartbeat_tick:
  assumes "playbackCursor s < length (currentDataset s)"
    and "\<not> detect_score (faultMode s) (currentDataset s ! playbackCursor s) > 0.7"
  shows "publishes_heartbeat (snd (tick clk s))
         = (((playbackCursor s + 1) mod length (currentDataset s)) mod 5 = 0)"
  using assms by (simp add: tick_in_range Let_def sendHeartbeat_def)

lemma run_ticks_low:
  "playbackCursor s = c \<Longrightarrow> c + n \<le> length (currentDataset s) \<Longrightarrow>
   (\<forall>i<n. \<not> detect_score (faultMode s) (currentDataset s ! (c + i)) > 0.7) \<Longrightarrow>
   map publishes_heartbeat (run_ticks clks j n s)
   = map (\<lambda>i. ((c + i + 1) mod length (currentDataset s)) mod 5 = 0) [0..<n]"
proof (induction n arbitrary: s c j)
  case 0
  show ?case by simp
next
  case (Suc n)
  let ?L = "length (currentDataset s)"
  obtain s' out where t: "tick (clks j) s = (s', out)" by (cases "tick (clks j) s")
  from Suc.prems have inr: "playbackCursor s < ?L" by simp
  from Suc.prems have low0: "\<not> detect_score (faultMode s) (currentDataset s ! playbackCursor s) > 0.7"
    by (metis add.right_neutral zero_less_Suc)
  have hd: "publishes_heartbeat out = (((c + 0 + 1) mod ?L) mod 5 = 0)"
    using publishes_heartbeat_tick[OF inr low0, of "clks j"] t Suc.prems(1) by simp
  have s': "currentDataset s' = currentDataset s" "faultMode s' = faultMode s"
    "playbackCursor s' = (c + 1) mod ?L"
    using t tick_in_range[OF inr, of "clks j"] Suc.prems(1) by (auto simp: Let_def)
  have tl: "map publishes_heartbeat (run_ticks clks (Suc j) n s')
            = map (\<lambda>i. ((c + Suc i + 1) mod ?L) mod 5 = 0) [0..<n]"
  proof (cases n)
    case 0
    then show ?thesis by simp
  next
    case (Suc m)
    with Suc.prems have lt: "c + 1 < ?L" by simp
    then have c': "playbackCursor s' = c + 1" using s' by simp
    have "map publishes_heartbeat (run_ticks clks (Suc j) n s')
          = map (\<lambda>i. ((c + 1 + i + 1) mod length (currentDataset s')) mod 5 = 0) [0..<n]"
    proof (rule Suc.IH[OF c'])
      show "c + 1 + n \<le> length (currentDataset s')" using Suc.prems s' by simp
      show "\<forall>i<n. \<not> 7 / 10 < detect_score (faultMode s') (currentDataset s' ! (c + 1 + i))"
      proof (intro allI impI)
        fix i assume "i < n"
        then have "Suc i < Suc n" by simp
        with Suc.prems(3) have "\<not> 7 / 10 < detect_score (faultMode s) (currentDataset s ! (c + Suc i))"
          by blast
        then show "\<not> 7 / 10 < detect_score (faultMode s') (currentDataset s' ! (c + 1 + i))"
          using s' by simp
      qed
    qed
    then show ?thesis using s' by simp
  qed
  have "map publishes_heartbeat (run_ticks clks j (Suc n) s)
        = publishes_heartbeat out # map publishes_heartbeat (run_ticks clks (Suc j) n s')"
    using t by simp
  also have "\<dots> = map (\<lambda>i. ((c + i + 1) mod ?L) mod 5 = 0) [0..<Suc n]"
    unfolding hd tl by (simp add: map_upt_Suc del: upt_Suc)
  finally show ?case .
qed

lemma ten: "[0..<10] = [0,1,2,3,4,5,6,7,8,9::nat]"
  by (simp add: upt_rec)

lemma run_ten_low:
  assumes "playbackCursor s = 0" "10 \<le> length (currentDataset s)"
    "\<forall>i<10. \<not> detect_score (faultMode s) (currentDataset s ! i) > 0.7"
  shows "heartbeat_ticks (run_ticks clks 0 10 s) = [4, 9]"
proof -
  let ?L = "length (currentDataset s)"
  have m: "map publishes_heartbeat (run_ticks clks 0 10 s)
      = map (\<lambda>i. ((0 + i + 1) mod ?L) mod 5 = 0) [0..<10]"
    using assms by (intro run_ticks_low) auto
  have nine: "(10 mod ?L) mod 5 = 0"
  proof (cases "?L = 10")
    case True then show ?thesis by simp
  next
    case False with assms(2) have "10 < ?L" by simp
    then show ?thesis by simp
  qed
  show ?thesis unfolding heartbeat_ticks_def m ten using assms(2) nine by simp
qed

lemma quiet_score: "detect_score NONE quiet_frame = 0.1"
  by (simp add: detect_score_def detect_def quiet_frame_def plc_read_def)

section \<open>Agent orchestrator: auxiliary facts\<close>

lemma length_update_first: "length (update_first P f xs) = length xs"
  by (induction xs) auto

lemma update_first_index:
  "find P xs \<noteq> None \<Longrightarrow>
   \<exists>i<length xs. P (xs ! i) \<and> (\<forall>j<i. \<not> P (xs ! j)) \<and> update_first P f xs = xs[i := f (xs ! i)]"
proof (induction xs)
  case Nil
  then show ?case by simp
next
  case (Cons x xs)
  show ?case
  proof (cases "P x")
    case True
    then have "0 < length (x # xs) \<and> P ((x # xs) ! 0) \<and> (\<forall>j<0. \<not> P ((x # xs) ! j)) \<and>
      update_first P f (x # xs) = (x # xs)[0 := f ((x # xs) ! 0)]" by simp
    then show ?thesis by blast
  next
    case False
    with Cons.prems have "find P xs \<noteq> None" by simp
    from Cons.IH[OF this] obtain i where i: "i < length xs" "P (xs ! i)" "\<forall>j<i. \<not> P (xs ! j)"
      "update_first P f xs = xs[i := f (xs ! i)]" by blast
    have "\<forall>j<Suc i. \<not> P ((x # xs) ! j)"
    proof (intro allI impI)
      fix j assume "j < Suc i"
      then show "\<not> P ((x # xs) ! j)" using False i(3) by (cases j) auto
    qed
    with i False have "Suc i < length (x # xs) \<and> P ((x # xs) ! Suc i) \<and>
      (\<forall>j<Suc i. \<not> P ((x # xs) ! j)) \<and>
      update_first P f (x # xs) = (x # xs)[Suc i := f ((x # xs) ! Suc i)]" by simp
    then show ?thesis by blast
  qed
qed

lemma route_status:
  "fst (snd (route h sess ts)) =
     (case status sess of RESEARCHING \<Rightarrow> PLANNING | PLANNING \<Rightarrow> VALIDATING
      | VALIDATING \<Rightarrow> DEPLOYED | DEPLOYED \<Rightarrow> DEPLOYED | TESTING \<Rightarrow> TESTING)"
  by (cases "status sess") (simp_all add: route_def Let_def)

lemma route_deployed: "status sess = DEPLOYED \<Longrightarrow> fst (route h sess ts) = []"
  by (simp add: route_def)

lemma processApproval_approved:
  assumes "present mid orch"
  shows "processApproval h mid True orch =
     (let sess1 = (session orch)
            \<lparr>messages := update_first (\<lambda>m. msg_id m = mid)
                           (\<lambda>m. m\<lparr>approved := Some True\<rparr>) (messages (session orch))\<rparr>;
          r = route h sess1 (traces orch)
      in (\<lparr>session = sess1\<lparr>status := fst (snd r),
                             messages := pruneContext (messages sess1 @ fst r)\<rparr>,
           traces = snd (snd r)\<rparr>, fst r))"
  using assms by (auto simp: processApproval_def present_def Let_def split: prod.splits)

lemma status_after_approval:
  assumes "present mid orch"
  shows "status (session (fst (processApproval h mid True orch))) =
     (case status (session orch) of RESEARCHING \<Rightarrow> PLANNING | PLANNING \<Rightarrow> VALIDATING
      | VALIDATING \<Rightarrow> DEPLOYED | DEPLOYED \<Rightarrow> DEPLOYED | TESTING \<Rightarrow> TESTING)"
  by (simp add: processApproval_approved[OF assms] Let_def route_status)

lemma processApproval_rejected:
  assumes "present mid orch"
  shows "processApproval h mid False orch =
     (\<lparr>session = (session orch)
            \<lparr>messages := update_first (\<lambda>m. msg_id m = mid)
                           (\<lambda>m. m\<lparr>approved := Some False\<rparr>) (messages (session orch))\<rparr>,
       traces = endTrace (uuid h 0) ''Cancelled'' FAILURE 50
                  (startTrace (uuid h 0) AIO ''Handle Rejection'' ''User rejected proposal''
                     (traces orch))\<rparr>,
      [rejectionMsg (uuid h 1) (iso_time h 0)])"
  using assms by (auto simp: processApproval_def present_def Let_def)

lemma status_startSession: "status (session (fst (startSession h obj orch))) = RESEARCHING"
  by (simp add: startSession_def Let_def resetSession_def)

lemma slice_from_last: "slice_from (- 10) xs = drop (length xs - 10) xs"
  by (simp add: slice_from_def Let_def max_def nat_diff_distrib')

lemma present_iff: "present mid orch = (mid \<in> set (map msg_id (messages (session orch))))"
  by (auto simp: present_def find_None_iff)

lemma map_msg_id_update_first:
  "map msg_id (update_first P (\<lambda>m. m\<lparr>approved := a\<rparr>) xs) = map msg_id xs"
  by (induction xs) auto

lemma route_ids:
  "map msg_id (fst (route h sess ts)) =
     (case status sess of RESEARCHING \<Rightarrow> [uuid h 1, uuid h 2] | PLANNING \<Rightarrow> [uuid h 1, uuid h 2]
      | VALIDATING \<Rightarrow> [uuid h 1] | DEPLOYED \<Rightarrow> [] | TESTING \<Rightarrow> [])"
  by (cases "status sess")
     (simp_all add: route_def Let_def runAISearch_def planMsg_def runATATest_def validMsg_def
        deployMsg_def)

lemma length_route: "length (fst (route h sess ts)) \<le> 2"
  by (cases "status sess") (simp_all add: route_def Let_def)

lemma ids_after_approval:
  assumes "present mid orch" and "length (messages (session orch)) \<le> 18"
  shows "map msg_id (messages (session (fst (processApproval h mid True orch)))) =
     map msg_id (messages (session orch)) @
     (case status (session orch) of RESEARCHING \<Rightarrow> [uuid h 1, uuid h 2]
      | PLANNING \<Rightarrow> [uuid h 1, uuid h 2] | VALIDATING \<Rightarrow> [uuid h 1] | DEPLOYED \<Rightarrow> []
      | TESTING \<Rightarrow> [])"
proof -
  let ?s1 = "(session orch)
            \<lparr>messages := update_first (\<lambda>m. msg_id m = mid)
                           (\<lambda>m. m\<lparr>approved := Some True\<rparr>) (messages (session orch))\<rparr>"
  have "length (messages ?s1 @ fst (route h ?s1 (traces orch))) \<le> 20"
    using assms(2) length_route[of h ?s1 "traces orch"] by (simp add: length_update_first)
  then have "pruneContext (messages ?s1 @ fst (route h ?s1 (traces orch)))
             = messages ?s1 @ fst (route h ?s1 (traces orch))"
    by (simp add: pruneContext_def)
  then show ?thesis
    by (simp add: processApproval_approved[OF assms(1)] Let_def map_msg_id_update_first route_ids)
qed

lemma ids_startSession: "map msg_id (messages (session (fst (startSession h obj orch)))) = [uuid h 1]"
  by (simp add: startSession_def Let_def)

lemma show_nat_digits:
  "show_nat 0 = ''0''" "show_nat 1 = ''1''" "show_nat (Suc 0) = ''1''" "show_nat 2 = ''2''"
  by code_simp+

lemma uuid_host_named: "uuid (host_named p) k = p @ ''-'' @ show_nat k"
  by (simp add: host_named_def)

lemma orch1_facts:
  "status (session orch1) = RESEARCHING" "map msg_id (messages (session orch1)) = [''start-1'']"
  by (simp_all add: orch1_def status_startSession ids_startSession uuid_host_named show_nat_digits
      del: show_nat.simps)

lemma orch2_facts:
  "status (session orch2) = PLANNING"
  "map msg_id (messages (session orch2)) = [''start-1'', ''a-1'', ''a-2'']"
proof -
  have p: "present ''start-1'' orch1" by (simp add: present_iff orch1_facts)
  have l: "length (messages (session orch1)) \<le> 18"
    using arg_cong[OF orch1_facts(2), of length] by simp
  show "status (session orch2) = PLANNING"
    by (simp add: orch2_def status_after_approval[OF p] orch1_facts)
  show "map msg_id (messages (session orch2)) = [''start-1'', ''a-1'', ''a-2'']"
    by (simp add: orch2_def ids_after_approval[OF p l] orch1_facts uuid_host_named show_nat_digits
        del: show_nat.simps)
qed

lemma length_le_18: "map msg_id xs = ys \<Longrightarrow> length ys \<le> 18 \<Longrightarrow> length xs \<le> 18"
  by (metis length_map)

lemma orch3_facts:
  "status (session orch3) = VALIDATING"
  "map msg_id (messages (session orch3)) = [''start-1'', ''a-1'', ''a-2'', ''b-1'', ''b-2'']"
proof -
  have p: "present ''a-2'' orch2" by (simp add: present_iff orch2_facts)
  have l: "length (messages (session orch2)) \<le> 18"
    by (rule length_le_18[OF orch2_facts(2)]) simp
  show "status (session orch3) = VALIDATING"
    by (simp add: orch3_def status_after_approval[OF p] orch2_facts)
  show "map msg_id (messages (session orch3)) = [''start-1'', ''a-1'', ''a-2'', ''b-1'', ''b-2'']"
    by (simp add: orch3_def ids_after_approval[OF p l] orch2_facts uuid_host_named show_nat_digits
        del: show_nat.simps)
qed

lemma again1_facts:
  "status (session again1) = VALIDATING"
  "map msg_id (messages (session again1)) = [''start-1'', ''a-1'', ''a-2'', ''r-1'', ''r-2'']"
proof -
  have p: "present ''start-1'' orch2" by (simp add: present_iff orch2_facts)
  have l: "length (messages (session orch2)) \<le> 18"
    by (rule length_le_18[OF orch2_facts(2)]) simp
  show "status (session again1) = VALIDATING"
    by (simp add: again1_def status_after_approval[OF p] orch2_facts)
  show "map msg_id (messages (session again1)) = [''start-1'', ''a-1'', ''a-2'', ''r-1'', ''r-2'']"
    by (simp add: again1_def ids_after_approval[OF p l] orch2_facts uuid_host_named show_nat_digits
        del: show_nat.simps)
qed

lemma again2_facts:
  "status (session again2) = DEPLOYED"
  "map msg_id (messages (session again2)) = [''start-1'', ''a-1'', ''a-2'', ''r-1'', ''r-2'', ''s-1'']"
proof -
  have p: "present ''a-1'' again1" by (simp add: present_iff again1_facts)
  have l: "length (messages (session again1)) \<le> 18"
    by (rule length_le_18[OF again1_facts(2)]) simp
  show "status (session again2) = DEPLOYED"
    by (simp add: again2_def status_after_approval[OF p] again1_facts)
  show "map msg_id (messages (session again2)) = [''start-1'', ''a-1'', ''a-2'', ''r-1'', ''r-2'', ''s-1'']"
    by (simp add: again2_def ids_after_approval[OF p l] again1_facts uuid_host_named show_nat_digits
        del: show_nat.simps)
qed

lemma orch2_opening_approved:
  "map approved (messages (session orch2)) = [Some True, None, None]"
  "map requiresHIL (messages (session orch2)) = [True, False, True]"
proof -
  have p: "present ''start-1'' orch1" by (simp add: present_iff orch1_facts)
  obtain m where m: "messages (session orch1) = [m]" "msg_id m = ''start-1''" "requiresHIL m"
    by (simp add: orch1_def startSession_def Let_def uuid_host_named show_nat_digits
        del: show_nat.simps)
  show "map approved (messages (session orch2)) = [Some True, None, None]"
    by (simp add: orch2_def processApproval_approved[OF p] Let_def m route_def orch1_facts
        pruneContext_def runAISearch_def planMsg_def)
  show "map requiresHIL (messages (session orch2)) = [True, False, True]"
    by (simp add: orch2_def processApproval_approved[OF p] Let_def m route_def orch1_facts
        pruneContext_def runAISearch_def planMsg_def)
qed

lemma drop_as_map_nth: "drop m xs = map (\<lambda>i. xs ! i) [m..<length xs]"
  by (rule nth_equalityI) auto

lemma map_nth_map_upt: "n \<le> k \<Longrightarrow> map (\<lambda>i. map f [0..<k] ! i) [m..<n] = map f [m..<n]"
  by (rule map_cong) auto

lemma first_frame_of_load_eq: "first_frame_of_load rnd = Some (normal_frame rnd 0)"
  by (simp add: first_frame_of_load_def readNextFrame_def generateNormal_def)

section \<open>Claims\<close>

subsection \<open>C1: uplink asymmetry\<close>

text \<open>
  C1, as the code has it. On a firing that starts with the cursor inside the dataset, the
  frame read is the one at the cursor before the advance. If its score is above 0.7, exactly
  one alert carrying the classifier result is published and no heartbeat: nothing samples
  alerts. Otherwise no alert is published, and one heartbeat is published exactly when the
  cursor after the advance is a multiple of 5 (none otherwise). So in a run of 10 firings
  from cursor 0 over a dataset of at least 10 frames that all score 0.1, exactly the firings
  with 0-based index 4 and 9 publish a heartbeat.
\<close>

theorem uplink_asymmetry:
  assumes "playbackCursor s < length (currentDataset s)"
  shows "(\<exists>out. snd (tick clk s) = Inr out \<and>
           (let r = nano_result clk (faultMode s) (currentDataset s ! playbackCursor s) in
            (anomalyScore r > 0.7 \<longrightarrow>
               (\<exists>a. alerts_of out = [a] \<and> nanoAnalysis a = r) \<and> heartbeats_of out = []) \<and>
            (\<not> anomalyScore r > 0.7 \<longrightarrow>
               alerts_of out = [] \<and>
               length (heartbeats_of out)
                 = (if playbackCursor (fst (tick clk s)) mod 5 = 0 then 1 else 0)))) \<and>
         playbackCursor (fst (tick clk s))
           = (playbackCursor s + 1) mod length (currentDataset s) \<and>
         (playbackCursor s = 0 \<and> 10 \<le> length (currentDataset s) \<and>
          (\<forall>i<10. detect_score (faultMode s) (currentDataset s ! i) = 0.1) \<longrightarrow>
            heartbeat_ticks (run_ticks clks 0 10 s) = [4, 9])"
proof (intro conjI)
  let ?f = "currentDataset s ! playbackCursor s"
  let ?r = "nano_result clk (faultMode s) ?f"
  note t = tick_in_range[OF assms, of clk]
  show "\<exists>out. snd (tick clk s) = Inr out \<and>
           (let r = ?r in
            (anomalyScore r > 0.7 \<longrightarrow>
               (\<exists>a. alerts_of out = [a] \<and> nanoAnalysis a = r) \<and> heartbeats_of out = []) \<and>
            (\<not> anomalyScore r > 0.7 \<longrightarrow>
               alerts_of out = [] \<and>
               length (heartbeats_of out)
                 = (if playbackCursor (fst (tick clk s)) mod 5 = 0 then 1 else 0)))"
  proof (cases "detect_score (faultMode s) ?f > 0.7")
    case True
    then show ?thesis
      using alerts_of_triggerCloudUpload[of clk ?f ?r]
      by (simp add: t Let_def anomalyScore_nano_result heartbeats_of_triggerCloudUpload)
  next
    case False
    then show ?thesis
      by (simp add: t Let_def anomalyScore_nano_result alerts_of_sendHeartbeat
          heartbeats_of_sendHeartbeat)
  qed
  show "playbackCursor (fst (tick clk s)) = (playbackCursor s + 1) mod length (currentDataset s)"
    by (simp add: t Let_def)
  show "playbackCursor s = 0 \<and> 10 \<le> length (currentDataset s) \<and>
          (\<forall>i<10. detect_score (faultMode s) (currentDataset s ! i) = 0.1) \<longrightarrow>
            heartbeat_ticks (run_ticks clks 0 10 s) = [4, 9]"
    by (auto intro!: run_ten_low)
qed

text \<open>
  The theorem at two states: a dataset of 60 quiet frames (ten firings, heartbeats at 4 and
  9) and a dataset of 60 frames with packet loss 6 (the first firing publishes one alert,
  labelled NETWORK_DDOS, and no heartbeat).
\<close>

theorem uplink_asymmetry_witness:
  "playbackCursor quiet_state < length (currentDataset quiet_state) \<and>
   heartbeat_ticks (run_ticks still_clocks 0 10 quiet_state) = [4, 9] \<and>
   playbackCursor (fst (tick still_clock quiet_state)) = 1 \<and>
   playbackCursor alarm_state < length (currentDataset alarm_state) \<and>
   (\<exists>out a. snd (tick still_clock alarm_state) = Inr out \<and> alerts_of out = [a] \<and>
      detectedLabel (nanoAnalysis a) = NETWORK_DDOS \<and> heartbeats_of out = [])"
proof -
  have q: "heartbeat_ticks (run_ticks still_clocks 0 10 quiet_state) = [4, 9] \<and>
           playbackCursor (fst (tick still_clock quiet_state)) = 1"
    using uplink_asymmetry[of quiet_state still_clock still_clocks]
    by (simp add: quiet_state_def quiet_score)
  have r: "nano_result still_clock IT_ATTACK lossy_malicious_frame =
             \<lparr>anomalyScore = 0.92, inferenceTimeMs = 12, detectedLabel = NETWORK_DDOS,
              specificAlerts = [''High Packet Loss Detected'', ''Network Latency Spike'']\<rparr>"
    by (simp add: nano_result_def detect_def lossy_malicious_frame_def quiet_frame_def
        plc_read_def still_clock_def Math_round_def)
  have a: "\<exists>out a. snd (tick still_clock alarm_state) = Inr out \<and> alerts_of out = [a] \<and>
      detectedLabel (nanoAnalysis a) = NETWORK_DDOS \<and> heartbeats_of out = []"
    using uplink_asymmetry[of alarm_state still_clock still_clocks]
    by (auto simp: alarm_state_def r Let_def)
  show ?thesis using q a by (simp add: quiet_state_def alarm_state_def)
qed

text \<open>
  C1 as stated fails: a dataset of 60 quiet frames, cursor 0, fault mode NONE. The frame of
  firing 0 scores 0.1 and 0 is a multiple of 5, yet firing 0 publishes no heartbeat, and the
  firings of the run that publish one are not 0 and 5.
\<close>

theorem uplink_tick_index_counterexample:
  "detect_score NONE quiet_frame = 0.1 \<and>
   \<not> publishes_heartbeat (snd (tick still_clock quiet_state)) \<and>
   heartbeat_ticks (run_ticks still_clocks 0 10 quiet_state) \<noteq> [0, 5]"
proof -
  have a: "\<not> publishes_heartbeat (snd (tick still_clock quiet_state))"
    by (subst publishes_heartbeat_tick) (simp_all add: quiet_state_def quiet_score)
  have "heartbeat_ticks (run_ticks still_clocks 0 10 quiet_state) = [4, 9]"
    by (rule run_ten_low) (simp_all add: quiet_state_def quiet_score)
  with a quiet_score show ?thesis by simp
qed

subsection \<open>C2: the network rule comes first\<close>

text \<open>
  C2. For every frame with packet loss above 5 and temperature below 60, in every fault
  mode, the classifier result is NETWORK_DDOS with score 0.92 and the alerts
  "High Packet Loss Detected" and "Network Latency Spike", whatever the network log says
  and whatever the other readings are.
\<close>

theorem rule1_precedence:
  assumes "packetLoss f > 5" and "temp f < 60"
  shows "nano_result clk mode f =
     \<lparr>anomalyScore = 0.92, inferenceTimeMs = Math_round (elapsed clk) + 12,
      detectedLabel = NETWORK_DDOS,
      specificAlerts = [''High Packet Loss Detected'', ''Network Latency Spike'']\<rparr>"
  using assms by (simp add: nano_result_def detect_def)

text \<open>
  The theorem at a frame with packet loss 6 and temperature 50 whose network log is marked
  malicious, so that the second rule would match as well.
\<close>

theorem rule1_precedence_witness:
  "packetLoss lossy_malicious_frame > 5 \<and> temp lossy_malicious_frame < 60 \<and>
   isMalicious (networkLog lossy_malicious_frame) \<and>
   nano_result still_clock OT_ATTACK lossy_malicious_frame =
     \<lparr>anomalyScore = 0.92, inferenceTimeMs = 12, detectedLabel = NETWORK_DDOS,
      specificAlerts = [''High Packet Loss Detected'', ''Network Latency Spike'']\<rparr>"
  using rule1_precedence[of lossy_malicious_frame still_clock OT_ATTACK]
  by (simp add: lossy_malicious_frame_def quiet_frame_def plc_read_def still_clock_def Math_round_def)

subsection \<open>C3: datasets and the random generator\<close>

text \<open>
  C3. The NORMAL dataset is built from \<^verbatim>\<open>Math.random()\<close>: two loads of the module whose
  generator returns different numbers hand out different first frames (audio 60 after
  draws of 0, audio 60.5 after draws of 1/2).
\<close>

theorem dataset_depends_on_random_draws:
  "first_frame_of_load draws_zero \<noteq> first_frame_of_load draws_half"
proof
  assume "first_frame_of_load draws_zero = first_frame_of_load draws_half"
  then have "audio (normal_frame draws_zero 0) = audio (normal_frame draws_half 0)"
    by (simp add: first_frame_of_load_eq)
  then show False
    by (simp add: normal_frame_def Let_def draws_zero_def draws_half_def)
qed

subsection \<open>C4: the order of the session states\<close>

text \<open>
  C4. Start a session; approve three times, each time a message that is present in the
  session. The status after the start and after each approval is RESEARCHING, PLANNING,
  VALIDATING, DEPLOYED, in that order.
\<close>

theorem fsm_visits_states_in_order:
  assumes "s0 = fst (startSession h0 obj orch)"
    and "present m1 s0" and "s1 = fst (processApproval h1 m1 True s0)"
    and "present m2 s1" and "s2 = fst (processApproval h2 m2 True s1)"
    and "present m3 s2" and "s3 = fst (processApproval h3 m3 True s2)"
  shows "map (\<lambda>s. status (session s)) [s0, s1, s2, s3]
         = [RESEARCHING, PLANNING, VALIDATING, DEPLOYED]"
proof -
  have 0: "status (session s0) = RESEARCHING" using assms(1) by (simp add: status_startSession)
  have 1: "status (session s1) = PLANNING"
    using status_after_approval[OF assms(2), of h1] assms(3) 0 by simp
  have 2: "status (session s2) = VALIDATING"
    using status_after_approval[OF assms(4), of h2] assms(5) 1 by simp
  have 3: "status (session s3) = DEPLOYED"
    using status_after_approval[OF assms(6), of h3] assms(7) 2 by simp
  show ?thesis using 0 1 2 3 by simp
qed

text \<open>
  The theorem on a session about a bearing fault, approving the opening message, the plan
  and the validation request.
\<close>

theorem fsm_visits_states_in_order_witness:
  "present ''start-1'' orch1 \<and> present ''a-2'' orch2 \<and> present ''b-2'' orch3 \<and>
   map (\<lambda>s. status (session s)) [orch1, orch2, orch3, orch4]
     = [RESEARCHING, PLANNING, VALIDATING, DEPLOYED]"
proof -
  have p1: "present ''start-1'' orch1" by (simp add: present_iff orch1_facts)
  have p2: "present ''a-2'' orch2" by (simp add: present_iff orch2_facts)
  have p3: "present ''b-2'' orch3" by (simp add: present_iff orch3_facts)
  show ?thesis
    using fsm_visits_states_in_order[OF orch1_def p1 orch2_def p2 orch3_def p3 orch4_def] p1 p2 p3
    by simp
qed

subsection \<open>C5: rejection\<close>

text \<open>
  C5. For every orchestrator state and every message id present in its session, a
  rejection leaves the status unchanged and returns exactly one message, the
  orchestrator's cancellation message.
\<close>

theorem rejection_short_circuit:
  assumes "present mid orch"
  shows "status (session (fst (processApproval h mid False orch))) = status (session orch) \<and>
         (\<exists>m. snd (processApproval h mid False orch) = [m] \<and>
              role m = AIO \<and> \<not> requiresHIL m \<and>
              content m = ''Operation cancelled by Supervisor. Waiting for refined instructions...'')"
  by (simp add: processApproval_rejected[OF assms] rejectionMsg_def)

text \<open>
  The theorem on the session in state PLANNING, rejecting the plan.
\<close>

theorem rejection_short_circuit_witness:
  "present ''a-2'' orch2 \<and>
   status (session orch2) = PLANNING \<and>
   status (session (fst (processApproval (host_named ''n'') ''a-2'' False orch2))) = PLANNING \<and>
   length (snd (processApproval (host_named ''n'') ''a-2'' False orch2)) = 1"
proof -
  have p: "present ''a-2'' orch2" by (simp add: present_iff orch2_facts)
  from rejection_short_circuit[OF p, of "host_named ''n''"] obtain m
    where "status (session (fst (processApproval (host_named ''n'') ''a-2'' False orch2)))
            = status (session orch2)"
      and "snd (processApproval (host_named ''n'') ''a-2'' False orch2) = [m]" by blast
  with p show ?thesis by (simp add: orch2_facts)
qed

subsection \<open>C6: the frame reader\<close>

text \<open>
  C6, as the code has it. For every state whose cursor is inside the dataset,
  \<^verbatim>\<open>readNextFrame\<close> advances the cursor by one modulo the length of the dataset and makes
  the current frame the one at the cursor before the advance; the dataset is unchanged.
\<close>

theorem readNextFrame_post:
  assumes "playbackCursor s < length (currentDataset s)"
  shows "playbackCursor (readNextFrame s) = (playbackCursor s + 1) mod length (currentDataset s) \<and>
         currentFrame (readNextFrame s) = Some (currentDataset s ! playbackCursor s) \<and>
         currentDataset (readNextFrame s) = currentDataset s"
  using assms by (simp add: readNextFrame_def)

text \<open>
  The theorem on a dataset of two frames at cursor 0.
\<close>

theorem readNextFrame_post_witness:
  "playbackCursor two_frame_state < length (currentDataset two_frame_state) \<and>
   playbackCursor (readNextFrame two_frame_state) = 1 \<and>
   currentFrame (readNextFrame two_frame_state) = Some quiet_frame"
  using readNextFrame_post[of two_frame_state]
  by (simp add: two_frame_state_def)

text \<open>
  C6 as stated fails: on a dataset of two different frames at cursor 0, the frame read is
  not the frame at the cursor after the advance.
\<close>

theorem readNextFrame_new_position_counterexample:
  "currentDataset two_frame_state \<noteq> [] \<and>
   currentFrame (readNextFrame two_frame_state)
     \<noteq> Some (currentDataset (readNextFrame two_frame_state)
               ! playbackCursor (readNextFrame two_frame_state))"
  by (simp add: readNextFrame_def two_frame_state_def warm_frame_def quiet_frame_def)

subsection \<open>C7: the mechanical rule is gated by the fault mode\<close>

text \<open>
  C7. For every frame with vibration above 5 on which neither the network rule nor the
  cyber-kinetic rule matches, the classifier in fault mode NONE returns NORMAL with score
  0.1 and no alerts; and in every fault mode and on every frame, a result labelled
  MECHANICAL_WEAR means the fault mode is MECHANICAL_FAIL.
\<close>

theorem mechanical_gating:
  "(vib f > 5 \<and> \<not> (packetLoss f > 5 \<and> temp f < 60) \<and>
    \<not> (isMalicious (networkLog f) \<or> (temp f > 75 \<and> latency f > 100)) \<longrightarrow>
      nano_result clk NONE f =
        \<lparr>anomalyScore = 0.1, inferenceTimeMs = Math_round (elapsed clk) + 12,
         detectedLabel = NORMAL, specificAlerts = []\<rparr>) \<and>
   (detectedLabel (nano_result clk mode f) = MECHANICAL_WEAR \<longrightarrow> mode = MECHANICAL_FAIL)"
  by (simp add: nano_result_def detect_def)

text \<open>
  The theorem at a frame with vibration 10: NORMAL in mode NONE, MECHANICAL_WEAR in mode
  MECHANICAL_FAIL.
\<close>

theorem mechanical_gating_witness:
  "vib shaking_frame = 10 \<and>
   nano_result still_clock NONE shaking_frame =
     \<lparr>anomalyScore = 0.1, inferenceTimeMs = 12, detectedLabel = NORMAL, specificAlerts = []\<rparr> \<and>
   detectedLabel (nano_result still_clock MECHANICAL_FAIL shaking_frame) = MECHANICAL_WEAR"
proof -
  have w: "detectedLabel (nano_result still_clock MECHANICAL_FAIL shaking_frame) = MECHANICAL_WEAR"
    by (simp add: nano_result_def detect_def shaking_frame_def quiet_frame_def plc_read_def)
  show ?thesis
    using mechanical_gating[of shaking_frame still_clock MECHANICAL_FAIL] w
    by (simp add: shaking_frame_def quiet_frame_def plc_read_def still_clock_def Math_round_def)
qed

subsection \<open>C8: context pruning\<close>

text \<open>
  C8. \<^verbatim>\<open>pruneContext\<close> returns a list of at most 20 messages unchanged; a longer list
  becomes its first message followed by its last 10, which is 11 messages; a list of 25
  becomes message 0 followed by messages 15 to 24.
\<close>

theorem pruneContext_head_tail:
  "(length msgs \<le> 20 \<longrightarrow> pruneContext msgs = msgs) \<and>
   (length msgs > 20 \<longrightarrow>
      pruneContext msgs = msgs ! 0 # drop (length msgs - 10) msgs \<and>
      length (pruneContext msgs) = 11 \<and>
      (\<forall>i<10. pruneContext msgs ! Suc i = msgs ! (length msgs - 10 + i))) \<and>
   (length msgs = 25 \<longrightarrow>
      pruneContext msgs = msgs ! 0 # map (\<lambda>i. msgs ! i) [15..<25])"
proof (intro conjI impI)
  assume "length msgs \<le> 20"
  then show "pruneContext msgs = msgs" by (simp add: pruneContext_def)
next
  assume l: "length msgs > 20"
  then show p: "pruneContext msgs = msgs ! 0 # drop (length msgs - 10) msgs"
    by (simp add: pruneContext_def slice_from_last)
  from l show "length (pruneContext msgs) = 11" unfolding p by simp
  from l show "\<forall>i<10. pruneContext msgs ! Suc i = msgs ! (length msgs - 10 + i)"
    unfolding p by simp
next
  assume l: "length msgs = 25"
  have "drop 15 msgs = map (\<lambda>i. msgs ! i) [15..<25]"
    using drop_as_map_nth[of 15 msgs] l by (simp del: upt.simps upt_Suc)
  with l show "pruneContext msgs = msgs ! 0 # map (\<lambda>i. msgs ! i) [15..<25]"
    by (simp add: pruneContext_def slice_from_last)
qed

text \<open>
  The theorem on 25 numbered messages and on the first 20 of them.
\<close>

theorem pruneContext_head_tail_witness:
  "length twenty_five = 25 \<and>
   pruneContext twenty_five = map numbered_msg (0 # [15..<25]) \<and>
   length (pruneContext twenty_five) = 11 \<and>
   length (take 20 twenty_five) \<le> 20 \<and>
   pruneContext (take 20 twenty_five) = take 20 twenty_five"
proof -
  have l: "length twenty_five = 25" by (simp add: twenty_five_def)
  have n: "\<And>i. i < 25 \<Longrightarrow> twenty_five ! i = numbered_msg i"
    by (simp add: twenty_five_def)
  have m: "map (\<lambda>i. twenty_five ! i) [15..<25] = map numbered_msg [15..<25]"
    unfolding twenty_five_def by (rule map_nth_map_upt) simp
  have z: "twenty_five ! 0 = numbered_msg 0" by (rule n) simp
  have "pruneContext twenty_five = twenty_five ! 0 # map (\<lambda>i. twenty_five ! i) [15..<25]"
    using pruneContext_head_tail[of twenty_five] l by blast
  then have a: "pruneContext twenty_five = map numbered_msg (0 # [15..<25])"
    by (simp only: m z list.map)
  have b: "length (pruneContext twenty_five) = 11"
    using pruneContext_head_tail[of twenty_five] l by simp
  have c: "pruneContext (take 20 twenty_five) = take 20 twenty_five"
    using pruneContext_head_tail[of "take 20 twenty_five"] by simp
  show ?thesis using l a b c by simp
qed

subsection \<open>C9: an approval is not tied to the message approved\<close>

text \<open>
  C9. For every orchestrator state and every message id present in its session, whatever
  the flags of that message, an approval moves the status one step: RESEARCHING to PLANNING,
  PLANNING to VALIDATING, VALIDATING to DEPLOYED; in DEPLOYED the status stays and no message
  is returned.
\<close>

theorem approval_advances_by_status_alone:
  assumes "present mid orch"
  shows "(status (session orch) = RESEARCHING \<longrightarrow>
            status (session (fst (processApproval h mid True orch))) = PLANNING) \<and>
         (status (session orch) = PLANNING \<longrightarrow>
            status (session (fst (processApproval h mid True orch))) = VALIDATING) \<and>
         (status (session orch) = VALIDATING \<longrightarrow>
            status (session (fst (processApproval h mid True orch))) = DEPLOYED) \<and>
         (status (session orch) = DEPLOYED \<longrightarrow>
            status (session (fst (processApproval h mid True orch))) = DEPLOYED \<and>
            snd (processApproval h mid True orch) = [])"
  using status_after_approval[OF assms, of h]
  by (auto simp: processApproval_approved[OF assms] Let_def route_deployed)

text \<open>
  The theorem on a session where the opening message is approved twice (the second time it
  is already approved) and then the search agent's message, which does not ask for
  approval, is approved twice: each approval but the last moves the status one step.
\<close>

theorem approval_advances_by_status_alone_witness:
  "present ''start-1'' orch1 \<and> present ''start-1'' orch2 \<and> present ''a-1'' again1 \<and>
   present ''a-1'' again2 \<and>
   map approved (messages (session orch2)) = [Some True, None, None] \<and>
   map requiresHIL (messages (session orch2)) = [True, False, True] \<and>
   map (\<lambda>s. status (session s)) [orch1, orch2, again1, again2]
     = [RESEARCHING, PLANNING, VALIDATING, DEPLOYED] \<and>
   status (session (fst (processApproval (host_named ''t'') ''a-1'' True again2))) = DEPLOYED \<and>
   snd (processApproval (host_named ''t'') ''a-1'' True again2) = []"
proof -
  have p1: "present ''start-1'' orch1" by (simp add: present_iff orch1_facts)
  have p2: "present ''start-1'' orch2" by (simp add: present_iff orch2_facts)
  have p3: "present ''a-1'' again1" by (simp add: present_iff again1_facts)
  have p4: "present ''a-1'' again2" by (simp add: present_iff again2_facts)
  have s1: "status (session orch1) = RESEARCHING" by (rule orch1_facts)
  have s2: "status (session orch2) = PLANNING"
    using approval_advances_by_status_alone[OF p1, of "host_named ''a''"] s1
    by (simp add: orch2_def)
  have s3: "status (session again1) = VALIDATING"
    using approval_advances_by_status_alone[OF p2, of "host_named ''r''"] s2
    by (simp add: again1_def)
  have s4: "status (session again2) = DEPLOYED"
    using approval_advances_by_status_alone[OF p3, of "host_named ''s''"] s3
    by (simp add: again2_def)
  have s5: "status (session (fst (processApproval (host_named ''t'') ''a-1'' True again2))) = DEPLOYED \<and>
            snd (processApproval (host_named ''t'') ''a-1'' True again2) = []"
    using approval_advances_by_status_alone[OF p4, of "host_named ''t''"] s4 by simp
  show ?thesis using p1 p2 p3 p4 s1 s2 s3 s4 s5 orch2_opening_approved by simp
qed

subsection \<open>C10: what a rejection changes\<close>

text \<open>
  C10. For every orchestrator state and every message id present in its session, after a
  rejection the session is the old session with one change: the first message with that id
  has its approved flag set to false. The list of messages has its old length (the
  cancellation message is not appended); objective and status are unchanged.
\<close>

theorem rejection_only_flags_target:
  assumes "present mid orch"
  shows "\<exists>i<length (messages (session orch)).
           msg_id (messages (session orch) ! i) = mid \<and>
           (\<forall>j<i. msg_id (messages (session orch) ! j) \<noteq> mid) \<and>
           session (fst (processApproval h mid False orch)) =
             (session orch)
               \<lparr>messages := (messages (session orch))
                   [i := (messages (session orch) ! i)\<lparr>approved := Some False\<rparr>]\<rparr> \<and>
           length (messages (session (fst (processApproval h mid False orch))))
             = length (messages (session orch)) \<and>
           objective (session (fst (processApproval h mid False orch))) = objective (session orch) \<and>
           status (session (fst (processApproval h mid False orch))) = status (session orch)"
proof -
  from assms have "find (\<lambda>m. msg_id m = mid) (messages (session orch)) \<noteq> None"
    by (simp add: present_def)
  from update_first_index[OF this, of "\<lambda>m. m\<lparr>approved := Some False\<rparr>"]
  obtain i where i: "i < length (messages (session orch))"
    "msg_id (messages (session orch) ! i) = mid"
    "\<forall>j<i. msg_id (messages (session orch) ! j) \<noteq> mid"
    "update_first (\<lambda>m. msg_id m = mid) (\<lambda>m. m\<lparr>approved := Some False\<rparr>) (messages (session orch))
       = (messages (session orch))[i := (messages (session orch) ! i)\<lparr>approved := Some False\<rparr>]"
    by blast
  show ?thesis
    by (rule exI[of _ i]) (simp add: processApproval_rejected[OF assms] i)
qed

text \<open>
  The theorem on the session in state PLANNING, rejecting the plan: three messages before
  and after, with approved flags true, undefined, false.
\<close>

theorem rejection_only_flags_target_witness:
  "present ''a-2'' orch2 \<and>
   length (messages (session orch2)) = 3 \<and>
   length (messages (session (fst (processApproval (host_named ''n'') ''a-2'' False orch2)))) = 3 \<and>
   map approved (messages (session (fst (processApproval (host_named ''n'') ''a-2'' False orch2))))
     = [Some True, None, Some False] \<and>
   status (session (fst (processApproval (host_named ''n'') ''a-2'' False orch2))) = PLANNING"
proof -
  let ?ms = "messages (session orch2)"
  let ?r = "fst (processApproval (host_named ''n'') ''a-2'' False orch2)"
  have p: "present ''a-2'' orch2" by (simp add: present_iff orch2_facts)
  have l: "length ?ms = 3" using arg_cong[OF orch2_facts(2), of length] by simp
  have ids: "msg_id (?ms ! 0) = ''start-1''" "msg_id (?ms ! 1) = ''a-1''" "msg_id (?ms ! 2) = ''a-2''"
    using arg_cong[OF orch2_facts(2), of "\<lambda>xs. xs ! 0"] arg_cong[OF orch2_facts(2), of "\<lambda>xs. xs ! 1"]
      arg_cong[OF orch2_facts(2), of "\<lambda>xs. xs ! 2"] l by simp_all
  from rejection_only_flags_target[OF p, of "host_named ''n''"] obtain i where
    i: "i < length ?ms" "msg_id (?ms ! i) = ''a-2''"
    and s: "session ?r = (session orch2)\<lparr>messages := ?ms[i := (?ms ! i)\<lparr>approved := Some False\<rparr>]\<rparr>"
    and st: "status (session ?r) = status (session orch2)"
    by blast
  have "i = 2"
  proof -
    from i(1) l have "i = 0 \<or> i = 1 \<or> i = 2" by auto
    with i(2) ids show ?thesis by auto
  qed
  with s have "map approved (messages (session ?r)) = (map approved ?ms)[2 := Some False]"
    by (simp add: map_update)
  then have "map approved (messages (session ?r)) = [Some True, None, Some False]"
    by (simp add: orch2_opening_approved)
  moreover have "length (messages (session ?r)) = 3" using s l by simp
  ultimately show ?thesis using p l st by (simp add: orch2_facts)
qed

end
